theory Spec2Isabelle
  imports Complex_Main
begin

section \<open>The player prop simulator of \<open>streamlit_app.py\<close>\<close>

text \<open>
  The simulation functions of \<open>streamlit_app.py\<close> (lines 98 to 138) and the module-level
  run that calls them (lines 141 to 152) are embedded here.

  Numbers: Python's floats are idealised as the real numbers, so rounding, overflow and
  signed zeros are outside the embedding of the run. The one function whose result is
  compared for exact equality with its arguments, \<open>bayesian_update\<close>, is embedded a second
  time with the rounding of each operation written out (\<open>bayesian_update_rnd\<close>). What
  Python does instead of returning a real number is written out as a value of type
  \<open>error\<close>:
  \<^item> \<open>ZeroDivisionError\<close>: the operator \<open>/\<close> raises it when the divisor is zero;
  \<^item> \<open>ValueError\<close>: \<open>np.random.normal\<close> raises it for a negative scale or a negative size;
  \<^item> \<open>NotANumber\<close>: numpy returns the float \<open>nan\<close> (\<open>np.sqrt\<close> of a negative number,
    \<open>np.mean\<close> of an empty array). \<open>nan\<close> is no real number, so the embedding stops there.
\<close>

datatype error = ZeroDivisionError | ValueError | NotANumber

definition bind_res :: "error + 'a \<Rightarrow> ('a \<Rightarrow> error + 'b) \<Rightarrow> error + 'b" where
  "bind_res m f = (case m of Inl e \<Rightarrow> Inl e | Inr x \<Rightarrow> f x)"

text \<open>Python's true division \<open>a / b\<close>.\<close>

definition py_truediv :: "real \<Rightarrow> real \<Rightarrow> error + real" where
  "py_truediv a b = (if b = 0 then Inl ZeroDivisionError else Inr (a / b))"

text \<open>\<open>np.sqrt\<close>: \<open>nan\<close> below zero, the square root otherwise.\<close>

definition np_sqrt :: "real \<Rightarrow> error + real" where
  "np_sqrt x = (if x < 0 then Inl NotANumber else Inr (sqrt x))"

text \<open>
  \<open>np.random.normal(loc, scale, size)\<close>: the library refuses a negative scale and a negative
  size, and otherwise returns \<open>size\<close> values \<open>loc + scale * z\<close>, one for each standard normal
  draw \<open>z\<close> of its generator. The draws of one run are the parameter \<open>z\<close> (draw number \<open>i\<close> is
  \<open>z i\<close>), which makes the random state explicit.
\<close>

definition np_random_normal :: "(nat \<Rightarrow> real) \<Rightarrow> real \<Rightarrow> real \<Rightarrow> int \<Rightarrow> error + real list" where
  "np_random_normal z loc scale sz =
     (if scale < 0 then Inl ValueError
      else if sz < 0 then Inl ValueError
      else Inr (map (\<lambda>i. loc + scale * z i) [0..<nat sz]))"

text \<open>
  \<open>np.mean(xs > line)\<close>: the fraction of the entries above the line; \<open>nan\<close> for an empty
  array.
\<close>

definition np_mean_gt :: "real list \<Rightarrow> real \<Rightarrow> error + real" where
  "np_mean_gt xs line =
     (if xs = [] then Inl NotANumber
      else Inr (real (length (filter (\<lambda>x. x > line) xs)) / real (length xs)))"

subsection \<open>Simulation functions\<close>

text \<open>
  \<open>bayesian_update\<close> reads the module-level variable \<open>games_played\<close> (the value of a number
  input that starts empty, so \<open>None\<close> or a number); it is the first parameter here.
\<close>

definition bayesian_update ::
  "real option \<Rightarrow> real \<Rightarrow> real \<Rightarrow> real \<Rightarrow> real \<Rightarrow> error + (real \<times> real)" where
  "bayesian_update games_played prior_mu prior_sigma recent_mu recent_games =
     (if games_played = None \<or> games_played = Some 0 then Inr (prior_mu, prior_sigma)
      else
        bind_res (py_truediv prior_mu (prior_sigma ^ 2)) (\<lambda>a.
        bind_res (py_truediv (recent_games * recent_mu) (prior_sigma ^ 2)) (\<lambda>b.
        bind_res (py_truediv 1 (prior_sigma ^ 2)) (\<lambda>c.
        bind_res (py_truediv recent_games (prior_sigma ^ 2)) (\<lambda>d.
        bind_res (py_truediv (a + b) (c + d)) (\<lambda>posterior_mu.
        bind_res (py_truediv 1 (prior_sigma ^ 2)) (\<lambda>c'.
        bind_res (py_truediv recent_games (prior_sigma ^ 2)) (\<lambda>d'.
        bind_res (py_truediv 1 (c' + d')) (\<lambda>q.
        bind_res (np_sqrt q) (\<lambda>posterior_sigma.
        Inr (posterior_mu, posterior_sigma)))))))))))"

text \<open>
  The same function with the rounding of the floats written out. Every arithmetic
  operation of lines 101 and 102 (the power, each product, quotient and sum, the square
  root) passes its exact result through \<open>rnd\<close>; the arguments are taken to be floats
  already. With \<open>exact\<close> nothing is rounded, which gives \<open>bayesian_update\<close> above; with
  \<open>double\<close> every result is rounded as an IEEE 754 double rounds it, to 53 significant
  bits, to the nearest value and to the even one of two nearest (the range of the exponent
  is not bounded here, so overflow and underflow stay outside).
\<close>

definition exact :: "real \<Rightarrow> real" where
  "exact x = x"

definition round_half_even :: "real \<Rightarrow> int" where
  "round_half_even x =
     (let f = \<lfloor>x\<rfloor>
      in if x - of_int f < 1 / 2 then f
         else if 1 / 2 < x - of_int f then f + 1
         else if even f then f else f + 1)"

definition double :: "real \<Rightarrow> real" where
  "double x =
     (if x = 0 then 0
      else let e = \<lfloor>log 2 \<bar>x\<bar>\<rfloor> - 52
           in of_int (round_half_even (x / 2 powi e)) * 2 powi e)"

definition truediv_rnd :: "(real \<Rightarrow> real) \<Rightarrow> real \<Rightarrow> real \<Rightarrow> error + real" where
  "truediv_rnd rnd a b = (if b = 0 then Inl ZeroDivisionError else Inr (rnd (a / b)))"

definition sqrt_rnd :: "(real \<Rightarrow> real) \<Rightarrow> real \<Rightarrow> error + real" where
  "sqrt_rnd rnd x = (if x < 0 then Inl NotANumber else Inr (rnd (sqrt x)))"

definition bayesian_update_rnd ::
  "(real \<Rightarrow> real) \<Rightarrow> real option \<Rightarrow> real \<Rightarrow> real \<Rightarrow> real \<Rightarrow> real \<Rightarrow> error + (real \<times> real)" where
  "bayesian_update_rnd rnd games_played prior_mu prior_sigma recent_mu recent_games =
     (if games_played = None \<or> games_played = Some 0 then Inr (prior_mu, prior_sigma)
      else
        bind_res (truediv_rnd rnd prior_mu (rnd (prior_sigma ^ 2))) (\<lambda>a.
        bind_res (truediv_rnd rnd (rnd (recent_games * recent_mu)) (rnd (prior_sigma ^ 2))) (\<lambda>b.
        bind_res (truediv_rnd rnd 1 (rnd (prior_sigma ^ 2))) (\<lambda>c.
        bind_res (truediv_rnd rnd recent_games (rnd (prior_sigma ^ 2))) (\<lambda>d.
        bind_res (truediv_rnd rnd (rnd (a + b)) (rnd (c + d))) (\<lambda>posterior_mu.
        bind_res (truediv_rnd rnd 1 (rnd (prior_sigma ^ 2))) (\<lambda>c'.
        bind_res (truediv_rnd rnd recent_games (rnd (prior_sigma ^ 2))) (\<lambda>d'.
        bind_res (truediv_rnd rnd 1 (rnd (c' + d'))) (\<lambda>q.
        bind_res (sqrt_rnd rnd q) (\<lambda>posterior_sigma.
        Inr (posterior_mu, posterior_sigma)))))))))))"

definition monte_carlo_simulation :: "(nat \<Rightarrow> real) \<Rightarrow> real \<Rightarrow> real \<Rightarrow> int \<Rightarrow> error + real list" where
  "monte_carlo_simulation z mu sigma sims = np_random_normal z mu sigma sims"

text \<open>The local \<open>odds_decimal\<close> of \<open>calculate_ev\<close>: the conditional expression of line 109.\<close>

definition odds_decimal :: "real \<Rightarrow> error + real" where
  "odds_decimal odds =
     (if odds < 0 then bind_res (py_truediv 100 \<bar>odds\<bar>) (\<lambda>q. Inr (1 + q))
      else bind_res (py_truediv odds 100) (\<lambda>q. Inr (q + 1)))"

definition calculate_ev :: "real \<Rightarrow> real \<Rightarrow> error + real" where
  "calculate_ev prob_over odds =
     bind_res (odds_decimal odds) (\<lambda>od. Inr ((prob_over * od) - (1 - prob_over)))"

definition apply_floor_adjustment :: "real \<Rightarrow> real \<Rightarrow> real \<Rightarrow> error + (real \<times> bool)" where
  "apply_floor_adjustment projected_points opp_points_allowed floor_percentage =
     bind_res (py_truediv floor_percentage 100) (\<lambda>r.
       let floor_value = opp_points_allowed * r;
           floor_triggered = (projected_points < floor_value)
       in Inr (max projected_points floor_value, floor_triggered))"

definition calculate_projected_points ::
  "real \<Rightarrow> real \<Rightarrow> real \<Rightarrow> real \<Rightarrow> real \<Rightarrow> error + real" where
  "calculate_projected_points mean_points recent_avg_points opp_points_allowed
       projected_minutes avg_minutes =
     (let weighted_avg = (0.6 * mean_points) + (0.4 * recent_avg_points);
          opponent_adjustment = (opp_points_allowed - mean_points) * 0.25
      in bind_res (if avg_minutes > 0 then py_truediv projected_minutes avg_minutes else Inr 1)
           (\<lambda>minutes_adjustment.
              Inr ((weighted_avg + opponent_adjustment) * minutes_adjustment)))"

definition get_bet_recommendation :: "real \<Rightarrow> string" where
  "get_bet_recommendation edge_percentage =
     (if edge_percentage \<ge> 50 then ''Very Strong Over Bet''
      else if edge_percentage \<ge> 31 then ''Strong Over Bet''
      else if edge_percentage \<ge> 10 then ''Good Over Bet''
      else if edge_percentage \<le> - 50 then ''Very Strong Under Bet''
      else if edge_percentage \<le> - 31 then ''Strong Under Bet''
      else if edge_percentage \<le> - 10 then ''Good Under Bet''
      else ''No Strong Bet Recommendation'')"

subsection \<open>The run of lines 141 to 152\<close>

text \<open>
  The values of the sidebar widgets that the run reads, under the names of the module-level
  variables.
\<close>

record inputs =
  mean_points :: real
  std_dev_points :: real
  games_played :: "real option"
  recent_avg_points :: real
  recent_games :: real
  opp_points_allowed_position :: real
  projected_minutes :: real
  avg_minutes :: real
  floor_percentage :: real
  line :: real
  odds :: real
  simulations :: int

text \<open>The module-level variables that the run assigns.\<close>

record results =
  posterior_mu :: real
  posterior_sigma :: real
  projected_points :: real
  simulated_points :: "real list"
  final_points :: real
  floor_triggered :: bool
  prob_over_line :: real
  ev :: real
  edge_percentage :: real
  bet_recommendation :: string

definition run :: "(nat \<Rightarrow> real) \<Rightarrow> inputs \<Rightarrow> error + results" where
  "run z inp =
     bind_res (bayesian_update (games_played inp) (mean_points inp) (std_dev_points inp)
                 (recent_avg_points inp) (recent_games inp)) (\<lambda>(p_mu, p_sigma).
     bind_res (calculate_projected_points (mean_points inp) (recent_avg_points inp)
                 (opp_points_allowed_position inp) (projected_minutes inp) (avg_minutes inp))
       (\<lambda>proj.
     bind_res (monte_carlo_simulation z proj p_sigma (simulations inp)) (\<lambda>sim.
     bind_res (apply_floor_adjustment proj (opp_points_allowed_position inp)
                 (floor_percentage inp)) (\<lambda>(fin, trig).
     bind_res (np_mean_gt sim (line inp)) (\<lambda>prob.
     bind_res (calculate_ev prob (odds inp)) (\<lambda>e.
       let edge = (prob * 100) - 50
       in Inr \<lparr> posterior_mu = p_mu, posterior_sigma = p_sigma, projected_points = proj,
                simulated_points = sim, final_points = fin, floor_triggered = trig,
                prob_over_line = prob, ev = e, edge_percentage = edge,
                bet_recommendation = get_bet_recommendation edge \<rparr>))))))"

subsection \<open>A concrete run\<close>

text \<open>
  The placeholder values of the sidebar with 17 projected minutes instead of 35, an empty
  games-played field and 1000 simulations; every standard normal draw is 0, so each sample
  is the mean it was drawn around. The raw projection is
  \<open>(0.6 * 20 + 0.4 * 22 + (22 - 20) * 0.25) * (17 / 34) = 10.65\<close>, below the floor
  \<open>22 * (50 / 100) = 11\<close>.
\<close>

definition zero_draws :: "nat \<Rightarrow> real" where
  "zero_draws i = 0"

definition floor_example :: inputs where
  "floor_example =
     \<lparr> mean_points = 20, std_dev_points = 1, games_played = None, recent_avg_points = 22,
       recent_games = 5, opp_points_allowed_position = 22, projected_minutes = 17,
       avg_minutes = 34, floor_percentage = 50, line = 41 / 2, odds = - 110,
       simulations = 1000 \<rparr>"

definition floor_example_results :: results where
  "floor_example_results =
     \<lparr> posterior_mu = 20, posterior_sigma = 1, projected_points = 213 / 20,
       simulated_points = replicate 1000 (213 / 20), final_points = 11,
       floor_triggered = True, prob_over_line = 0, ev = - 1, edge_percentage = - 50,
       bet_recommendation = ''Very Strong Under Bet'' \<rparr>"

text \<open>
  The results split in three: the betting analysis, the estimates that the analysis is
  computed from, and the two results of the floor adjustment, \<open>final_points\<close> and
  \<open>floor_triggered\<close>.
\<close>

definition analysis :: "results \<Rightarrow> real \<times> real \<times> real \<times> string" where
  "analysis r = (prob_over_line r, ev r, edge_percentage r, bet_recommendation r)"

definition estimates :: "results \<Rightarrow> real \<times> real \<times> real \<times> real list" where
  "estimates r = (posterior_mu r, posterior_sigma r, projected_points r, simulated_points r)"

section \<open>Properties\<close>

subsection \<open>Basic facts\<close>

lemma bind_res_Inr [simp]: "bind_res (Inr x) f = f x"
  by (simp add: bind_res_def)

lemma bind_res_Inl [simp]: "bind_res (Inl e) f = Inl e"
  by (simp add: bind_res_def)

lemma bind_res_InrD:
  "bind_res m f = Inr y \<Longrightarrow> \<exists>x. m = Inr x \<and> f x = Inr y"
  by (cases m) simp_all

lemma odds_decimal_value:
  "odds_decimal od = Inr (if od < 0 then 1 + 100 / \<bar>od\<bar> else od / 100 + 1)"
  by (simp add: odds_decimal_def py_truediv_def)

lemma apply_floor_adjustment_value:
  "apply_floor_adjustment raw opp p =
     Inr (max raw (opp * (p / 100)), raw < opp * (p / 100))"
  by (simp add: apply_floor_adjustment_def py_truediv_def)

lemma calculate_projected_points_value:
  "calculate_projected_points m r opp pm am =
     Inr ((0.6 * m + 0.4 * r + (opp - m) * 0.25) * (if am > 0 then pm / am else 1))"
  by (simp add: calculate_projected_points_def py_truediv_def)

lemma np_mean_gt_bounds:
  assumes "np_mean_gt xs l = Inr p"
  shows "0 \<le> p \<and> p \<le> 1"
proof -
  have ne: "xs \<noteq> []" using assms by (auto simp: np_mean_gt_def split: if_splits)
  have p: "p = real (length (filter (\<lambda>x. x > l) xs)) / real (length xs)"
    using assms ne by (simp add: np_mean_gt_def)
  have "length (filter (\<lambda>x. x > l) xs) \<le> length xs" by (rule length_filter_le)
  then have "real (length (filter (\<lambda>x. x > l) xs)) \<le> real (length xs)" by simp
  moreover have "0 < real (length xs)" using ne by simp
  ultimately show ?thesis unfolding p by (simp add: divide_le_eq_1)
qed

subsection \<open>The Bayesian update\<close>

lemma bayesian_update_gate:
  "gp = None \<or> gp = Some 0 \<Longrightarrow> bayesian_update gp m s r n = Inr (m, s)"
  by (simp add: bayesian_update_def)

text \<open>
  Past the gate, with a positive prior deviation and a non-negative number of recent games,
  no division fails and the update is the weighted mean with the deviation divided by
  \<open>sqrt (1 + n)\<close>.
\<close>

lemma bayesian_update_fused:
  assumes g: "gp \<noteq> None" "gp \<noteq> Some 0"
    and s: "0 < s" and n: "0 \<le> n"
  shows "bayesian_update gp m s r n = Inr ((m + n * r) / (1 + n), s / sqrt (1 + n))"
proof -
  have s2: "s ^ 2 \<noteq> 0" using s by simp
  have d1: "\<And>a. py_truediv a (s ^ 2) = Inr (a / s ^ 2)"
    using s2 by (simp add: py_truediv_def)
  have sum: "1 / s ^ 2 + n / s ^ 2 = (1 + n) / s ^ 2"
    by (simp add: add_divide_distrib)
  have pos: "0 < (1 + n) / s ^ 2" using s n by simp
  have nz: "1 / s ^ 2 + n / s ^ 2 \<noteq> 0" using pos unfolding sum by linarith
  have q: "1 / (1 / s ^ 2 + n / s ^ 2) = s ^ 2 / (1 + n)"
    using sum by simp
  have qpos: "\<not> s ^ 2 / (1 + n) < 0" using s n by (simp add: not_less)
  have mu: "(m / s ^ 2 + n * r / s ^ 2) / (1 / s ^ 2 + n / s ^ 2) = (m + n * r) / (1 + n)"
  proof -
    have "m / s ^ 2 + n * r / s ^ 2 = (m + n * r) / s ^ 2"
      by (simp add: add_divide_distrib)
    then show ?thesis using sum s2 by simp
  qed
  have sq: "sqrt (s ^ 2 / (1 + n)) = s / sqrt (1 + n)"
    using s by (simp add: real_sqrt_divide)
  have d2: "\<And>a. py_truediv a (1 / s ^ 2 + n / s ^ 2) = Inr (a / (1 / s ^ 2 + n / s ^ 2))"
    using nz by (simp only: py_truediv_def if_False)
  have d3: "np_sqrt (s ^ 2 / (1 + n)) = Inr (s / sqrt (1 + n))"
    using qpos sq by (simp only: np_sqrt_def if_False)
  have "bayesian_update gp m s r n =
          Inr ((m / s ^ 2 + n * r / s ^ 2) / (1 / s ^ 2 + n / s ^ 2), s / sqrt (1 + n))"
    using g by (simp only: bayesian_update_def d1 d2 bind_res_Inr q d3 simp_thms if_False)
  then show ?thesis by (simp only: mu)
qed

lemma bayesian_update_returns:
  assumes "0 < s" "0 \<le> n"
  shows "\<exists>pm ps. bayesian_update gp m s r n = Inr (pm, ps) \<and> 0 \<le> ps"
proof (cases "gp = None \<or> gp = Some 0")
  case True
  then show ?thesis using assms bayesian_update_gate [of gp m s r n] by simp
next
  case False
  then show ?thesis using assms bayesian_update_fused [of gp s n m r] by simp
qed

text \<open>
  C3, as the code has it: when \<open>games_played\<close> is neither \<open>None\<close> nor 0, the number of
  recent games is positive and the prior standard deviation is positive,
  \<open>bayesian_update\<close> returns a posterior standard deviation strictly below the prior one.
\<close>

theorem bayesian_update_sigma_decreases:
  assumes "gp \<noteq> None" "gp \<noteq> Some 0" "0 < n" "0 < s"
  shows "\<exists>pm ps. bayesian_update gp m s r n = Inr (pm, ps) \<and> ps < s"
proof -
  have "1 < sqrt (1 + n)" using assms(3) by simp
  then have "s / sqrt (1 + n) < s" using assms(4)
    by (simp add: divide_less_eq)
  then show ?thesis
    using bayesian_update_fused [of gp s n m r] assms by simp
qed

theorem bayesian_update_sigma_decreases_witness:
  "\<exists>pm ps. bayesian_update (Some 10) 20 1 22 5 = Inr (pm, ps) \<and> ps < 1"
  using bayesian_update_sigma_decreases [of "Some 10" 5 1 20 22] by simp

text \<open>
  Without the condition on \<open>games_played\<close> the decrease fails: with the field empty, five
  recent games and a prior deviation of 1, the gate of line 99 returns the prior deviation 1
  itself.
\<close>

theorem bayesian_update_sigma_counterexample:
  "bayesian_update None 20 1 22 5 = Inr (20, 1) \<and> \<not> ((1::real) < 1)"
  by (simp add: bayesian_update_def)

subsection \<open>The Bayesian update in double precision\<close>

lemma bayesian_update_rnd_exact:
  "bayesian_update_rnd exact gp m s r n = bayesian_update gp m s r n"
  by (simp add: bayesian_update_rnd_def bayesian_update_def truediv_rnd_def py_truediv_def
      sqrt_rnd_def np_sqrt_def exact_def)

text \<open>A number between \<open>2 ^ (e + 52)\<close> and \<open>2 ^ (e + 53)\<close> is rounded to a multiple of \<open>2 ^ e\<close>.\<close>

lemma double_at:
  assumes "2 powi (e + 52) \<le> \<bar>x\<bar>" "\<bar>x\<bar> < 2 powi (e + 53)"
  shows "double x = of_int (round_half_even (x / 2 powi e)) * 2 powi e"
proof -
  have "(0::real) < 2 powi (e + 52)" by simp
  then have pos: "0 < \<bar>x\<bar>" using assms(1) by (rule less_le_trans)
  then have nz: "x \<noteq> 0" by simp
  have lo: "(2::real) powr real_of_int (e + 52) = 2 powi (e + 52)"
    by (rule powr_real_of_int') simp_all
  have hi: "(2::real) powr real_of_int (e + 52 + 1) = 2 powi (e + 53)"
    using powr_real_of_int' [of "2::real" "e + 53"] by (simp add: add.commute add.left_commute)
  have "\<lfloor>log 2 \<bar>x\<bar>\<rfloor> = e + 52"
    using assms pos floor_log_eq_powr_iff [of "\<bar>x\<bar>" 2 "e + 52"] unfolding lo hi by simp
  then show ?thesis using nz by (simp add: double_def)
qed

lemma double_zero: "double 0 = 0"
  by (simp add: double_def)

lemma double_9: "double 9 = 9"
  using double_at [of "- 49" 9] by (simp add: round_half_even_def)

lemma double_3: "double 3 = 3"
  using double_at [of "- 51" 3] by (simp add: round_half_even_def)

lemma double_20_9: "double (20 / 9) = 2501999792983609 / 1125899906842624"
  using double_at [of "- 51" "20 / 9"] by (simp add: round_half_even_def)

lemma double_1_9: "double (1 / 9) = 2001599834386887 / 18014398509481984"
  using double_at [of "- 56" "1 / 9"] by (simp add: round_half_even_def)

lemma double_20_9_again:
  "double (2501999792983609 / 1125899906842624) = 2501999792983609 / 1125899906842624"
  using double_at [of "- 51" "2501999792983609 / 1125899906842624"]
  by (simp add: round_half_even_def)

lemma double_1_9_again:
  "double (2001599834386887 / 18014398509481984) = 2001599834386887 / 18014398509481984"
  using double_at [of "- 56" "2001599834386887 / 18014398509481984"]
  by (simp add: round_half_even_def)

lemma double_quotient:
  "double (2501999792983609 / 1125899906842624 / (2001599834386887 / 18014398509481984)) =
     5629499534213121 / 281474976710656"
  using double_at [of "- 48"
      "2501999792983609 / 1125899906842624 / (2001599834386887 / 18014398509481984)"]
  by (simp add: round_half_even_def)

lemma double_inverse:
  "double (1 / (2001599834386887 / 18014398509481984)) = 9"
  using double_at [of "- 49" "1 / (2001599834386887 / 18014398509481984)"]
  by (simp add: round_half_even_def)

lemma sqrt_9: "sqrt 9 = 3"
  using real_sqrt_abs [of 3] by simp

text \<open>
  Ten games played, prior mean 20, prior deviation 3 and no recent games, step by step in
  doubles: \<open>20 / 9\<close> and \<open>1 / 9\<close> are rounded, and the quotient of the two rounded values
  rounds to \<open>20 + 2 ^ -48\<close>, the double that prints as \<open>20.000000000000004\<close>.
\<close>

lemma bayesian_update_rounded:
  "bayesian_update_rnd double (Some 10) 20 3 22 0 =
     Inr (5629499534213121 / 281474976710656, 3)"
proof -
  have gate: "\<not> (Some (10::real) = None \<or> Some (10::real) = Some 0)" by simp
  have s2: "double (3 ^ 2) = 9" using double_9 by simp
  have ra: "truediv_rnd double 20 9 = Inr (2501999792983609 / 1125899906842624)"
    by (simp add: truediv_rnd_def double_20_9)
  have rm: "double (0 * 22) = 0" by (simp add: double_zero)
  have rb: "truediv_rnd double 0 9 = Inr 0"
    by (simp add: truediv_rnd_def double_zero)
  have rc: "truediv_rnd double 1 9 = Inr (2001599834386887 / 18014398509481984)"
    by (simp add: truediv_rnd_def double_1_9)
  have sab: "double (2501999792983609 / 1125899906842624 + 0) =
      2501999792983609 / 1125899906842624"
    using double_20_9_again by simp
  have scd: "double (2001599834386887 / 18014398509481984 + 0) =
      2001599834386887 / 18014398509481984"
    using double_1_9_again by simp
  have rpm: "truediv_rnd double (2501999792983609 / 1125899906842624)
      (2001599834386887 / 18014398509481984) = Inr (5629499534213121 / 281474976710656)"
    unfolding truediv_rnd_def double_quotient by simp
  have rq: "truediv_rnd double 1 (2001599834386887 / 18014398509481984) = Inr 9"
    unfolding truediv_rnd_def double_inverse by simp
  have rs: "sqrt_rnd double 9 = Inr 3"
    by (simp add: sqrt_rnd_def sqrt_9 double_3)
  show ?thesis
    by (simp only: bayesian_update_rnd_def gate if_False s2 ra rm rb rc sab scd rpm rq rs
        bind_res_Inr)
qed

text \<open>
  C8, as the code has it: when \<open>games_played\<close> is \<open>None\<close> or 0, \<open>bayesian_update\<close> returns
  the pair of the prior mean and the prior standard deviation exactly, whatever the
  rounding, because the gate of line 99 returns its arguments. With no recent games and
  any other \<open>games_played\<close> the formulas of lines 101 and 102 are evaluated: without
  rounding and with a positive prior standard deviation their result is the prior pair
  again.
\<close>

theorem bayesian_update_unchanged:
  "(gp = None \<or> gp = Some 0 \<longrightarrow> bayesian_update_rnd rnd gp m s r n = Inr (m, s)) \<and>
   (n = 0 \<and> 0 < s \<longrightarrow> bayesian_update_rnd exact gp m s r n = Inr (m, s))"
proof (intro conjI impI)
  assume "gp = None \<or> gp = Some 0"
  then show "bayesian_update_rnd rnd gp m s r n = Inr (m, s)"
    by (simp add: bayesian_update_rnd_def)
next
  assume a: "n = 0 \<and> 0 < s"
  show "bayesian_update_rnd exact gp m s r n = Inr (m, s)"
  proof (cases "gp = None \<or> gp = Some 0")
    case True
    then show ?thesis by (simp add: bayesian_update_rnd_def)
  next
    case False
    then show ?thesis
      using a bayesian_update_fused [of gp s n m r] by (simp add: bayesian_update_rnd_exact)
  qed
qed

theorem bayesian_update_unchanged_witness:
  "bayesian_update_rnd double None 20 3 22 5 = Inr (20, 3) \<and>
   bayesian_update_rnd double (Some 0) 20 3 22 5 = Inr (20, 3) \<and>
   bayesian_update_rnd exact (Some 10) 20 3 22 0 = Inr (20, 3)"
  using bayesian_update_unchanged [of None double 20 3 22 5]
    bayesian_update_unchanged [of "Some 0" double 20 3 22 5]
    bayesian_update_unchanged [of "Some 10" exact 20 3 22 0] by simp

text \<open>
  In doubles the second case is not exact: with ten games played, prior mean 20, prior
  deviation 3 and no recent games the posterior mean is \<open>20 + 2 ^ -48\<close>, not 20.
\<close>

theorem bayesian_update_rounded_counterexample:
  "bayesian_update_rnd double (Some 10) 20 3 22 0 =
     Inr (5629499534213121 / 281474976710656, 3) \<and>
   (5629499534213121 / 281474976710656 :: real) \<noteq> 20"
  using bayesian_update_rounded by simp

subsection \<open>Odds, sampler, floor and projection\<close>

text \<open>
  C2, as the code has it: the odds conversion never fails. Every odds value, 0 included,
  gives a multiplier: \<open>1 + 100 / |odds|\<close> for odds below 0 and \<open>odds / 100 + 1\<close> otherwise,
  hence 1 for odds 0; and \<open>calculate_ev\<close> returns the probability times the multiplier
  minus the complementary probability.
\<close>

theorem odds_conversion_total:
  "(od < 0 \<longrightarrow> odds_decimal od = Inr (1 + 100 / \<bar>od\<bar>) \<and>
      calculate_ev p od = Inr (p * (1 + 100 / \<bar>od\<bar>) - (1 - p))) \<and>
   (\<not> od < 0 \<longrightarrow> odds_decimal od = Inr (od / 100 + 1) \<and>
      calculate_ev p od = Inr (p * (od / 100 + 1) - (1 - p))) \<and>
   (od = 0 \<longrightarrow> odds_decimal od = Inr 1 \<and> calculate_ev p od = Inr (p * 1 - (1 - p))) \<and>
   (\<forall>e. odds_decimal od \<noteq> Inl e \<and> calculate_ev p od \<noteq> Inl e)"
  by (simp add: calculate_ev_def odds_decimal_value)

theorem odds_conversion_total_witness:
  "odds_decimal (- 110) = Inr (21 / 11) \<and> calculate_ev (3 / 4) (- 110) = Inr (13 / 11) \<and>
   odds_decimal 150 = Inr (5 / 2) \<and> calculate_ev (3 / 4) 150 = Inr (13 / 8) \<and>
   odds_decimal 0 = Inr 1 \<and> calculate_ev (3 / 4) 0 = Inr (1 / 2)"
  using odds_conversion_total [of "- 110" "3 / 4"] odds_conversion_total [of 150 "3 / 4"]
    odds_conversion_total [of 0 "3 / 4"] by simp

text \<open>At odds 0 the conversion returns the multiplier 1, and an even chance has value 0.\<close>

theorem zero_odds_counterexample:
  "odds_decimal 0 = Inr 1 \<and> calculate_ev (1 / 2) 0 = Inr 0"
  by (simp add: calculate_ev_def odds_decimal_def py_truediv_def)

text \<open>
  C4, as the code has it: \<open>monte_carlo_simulation\<close> checks nothing itself. For every
  standard deviation that is not negative and every count that is not negative, so also
  for the deviation 0 and for counts outside 1000 to 20000, it returns a sample sequence
  of that length; a negative deviation or a negative count fails with the \<open>ValueError\<close> of
  \<open>np.random.normal\<close>.
\<close>

theorem monte_carlo_simulation_failures:
  "(0 \<le> sigma \<and> 0 \<le> sims \<longrightarrow>
      (\<exists>xs. monte_carlo_simulation z mu sigma sims = Inr xs \<and> int (length xs) = sims)) \<and>
   (sigma < 0 \<or> sims < 0 \<longrightarrow> monte_carlo_simulation z mu sigma sims = Inl ValueError)"
  by (simp add: monte_carlo_simulation_def np_random_normal_def)

theorem monte_carlo_simulation_failures_witness:
  "(\<exists>xs. monte_carlo_simulation zero_draws 5 0 3 = Inr xs \<and> int (length xs) = 3) \<and>
   monte_carlo_simulation zero_draws 5 (- 1) 1000 = Inl ValueError"
  using monte_carlo_simulation_failures [of 0 3 zero_draws 5]
    monte_carlo_simulation_failures [of "- 1" 1000 zero_draws 5] by simp

text \<open>A standard deviation of 0 and a count of 3 give three samples, each the mean.\<close>

theorem monte_carlo_unchecked_counterexample:
  "monte_carlo_simulation zero_draws 5 0 3 = Inr [5, 5, 5]"
  by (simp add: monte_carlo_simulation_def np_random_normal_def zero_draws_def upt_rec)

text \<open>
  C5, as the code has it: for an opponent allowance that is not negative,
  \<open>apply_floor_adjustment\<close> is monotonic in the floor percentage: a larger percentage
  never gives a smaller floored value, whatever the raw projection.
\<close>

theorem apply_floor_adjustment_mono:
  assumes "0 \<le> opp" "p1 \<le> p2"
  shows "\<exists>v1 t1 v2 t2. apply_floor_adjustment raw opp p1 = Inr (v1, t1) \<and>
           apply_floor_adjustment raw opp p2 = Inr (v2, t2) \<and> v1 \<le> v2"
proof -
  have "opp * (p1 / 100) \<le> opp * (p2 / 100)"
    using assms by (intro mult_left_mono) simp_all
  then have "max raw (opp * (p1 / 100)) \<le> max raw (opp * (p2 / 100))"
    by (rule max.mono [OF order_refl])
  then show ?thesis
    by (simp only: apply_floor_adjustment_value prod.inject sum.inject simp_thms ex_simps)
qed

theorem apply_floor_adjustment_mono_witness:
  "\<exists>v1 t1 v2 t2. apply_floor_adjustment 10 22 25 = Inr (v1, t1) \<and>
      apply_floor_adjustment 10 22 50 = Inr (v2, t2) \<and> v1 \<le> v2"
  using apply_floor_adjustment_mono [of 22 25 50 10] by simp

text \<open>
  With a negative opponent allowance the floor falls as the percentage rises: a raw
  projection of -100 against an allowance of -10 is floored to 0 at 0 percent and to -10
  at 100 percent.
\<close>

theorem apply_floor_adjustment_mono_counterexample:
  "apply_floor_adjustment (- 100) (- 10) 0 = Inr (0, True) \<and>
   apply_floor_adjustment (- 100) (- 10) 100 = Inr (- 10, True) \<and> \<not> ((0::real) \<le> - 10)"
  by (simp add: apply_floor_adjustment_value)

text \<open>
  C9: \<open>calculate_projected_points\<close> never fails. It divides the projected minutes by the
  average minutes only when the average is positive, the ratio is 1 for every other
  average (0 included), and the result is
  \<open>(0.6 * mean + 0.4 * recent + (opponent - mean) * 0.25) * ratio\<close>.
\<close>

theorem calculate_projected_points_total:
  "(\<forall>e. calculate_projected_points m r opp pm am \<noteq> Inl e) \<and>
   (am > 0 \<longrightarrow> calculate_projected_points m r opp pm am =
      Inr ((0.6 * m + 0.4 * r + (opp - m) * 0.25) * (pm / am))) \<and>
   (\<not> am > 0 \<longrightarrow> calculate_projected_points m r opp pm am =
      Inr ((0.6 * m + 0.4 * r + (opp - m) * 0.25) * 1.0))"
  by (simp add: calculate_projected_points_value)

theorem calculate_projected_points_total_witness:
  "calculate_projected_points 20 22 22 35 0 = Inr (213 / 10) \<and>
   calculate_projected_points 20 22 22 17 34 = Inr (213 / 20)"
  using calculate_projected_points_total [of 20 22 22 35 0]
    calculate_projected_points_total [of 20 22 22 17 34] by simp

text \<open>
  C7: the recommendation follows the thresholds, each closed on the side it names and the
  larger magnitude first: an edge of 50 or more is a very strong over bet, from 31 up to
  50 a strong over bet, from 10 up to 31 a good over bet; an edge of -50 or less is a very
  strong under bet, above -50 down to -31 a strong under bet, above -31 down to -10 a good
  under bet; every edge strictly between -10 and 10 gives no recommendation. So exactly 50
  is a very strong over bet, 49.99 a strong over bet, exactly 10 a good over bet, exactly
  -10 a good under bet and 0 no recommendation.
\<close>

theorem get_bet_recommendation_boundaries:
  "(\<forall>e. 50 \<le> e \<longrightarrow> get_bet_recommendation e = ''Very Strong Over Bet'') \<and>
   (\<forall>e. 31 \<le> e \<and> e < 50 \<longrightarrow> get_bet_recommendation e = ''Strong Over Bet'') \<and>
   (\<forall>e. 10 \<le> e \<and> e < 31 \<longrightarrow> get_bet_recommendation e = ''Good Over Bet'') \<and>
   (\<forall>e. e \<le> - 50 \<longrightarrow> get_bet_recommendation e = ''Very Strong Under Bet'') \<and>
   (\<forall>e. - 50 < e \<and> e \<le> - 31 \<longrightarrow> get_bet_recommendation e = ''Strong Under Bet'') \<and>
   (\<forall>e. - 31 < e \<and> e \<le> - 10 \<longrightarrow> get_bet_recommendation e = ''Good Under Bet'') \<and>
   (\<forall>e. - 10 < e \<and> e < 10 \<longrightarrow>
        get_bet_recommendation e = ''No Strong Bet Recommendation'') \<and>
   get_bet_recommendation 50 = ''Very Strong Over Bet'' \<and>
   get_bet_recommendation (4999 / 100) = ''Strong Over Bet'' \<and>
   get_bet_recommendation 10 = ''Good Over Bet'' \<and>
   get_bet_recommendation (- 10) = ''Good Under Bet'' \<and>
   get_bet_recommendation 0 = ''No Strong Bet Recommendation''"
  by (simp add: get_bet_recommendation_def)

theorem get_bet_recommendation_boundaries_witness:
  "get_bet_recommendation 60 = ''Very Strong Over Bet'' \<and>
   get_bet_recommendation 31 = ''Strong Over Bet'' \<and>
   get_bet_recommendation 30 = ''Good Over Bet'' \<and>
   get_bet_recommendation (- 50) = ''Very Strong Under Bet'' \<and>
   get_bet_recommendation (- 31) = ''Strong Under Bet'' \<and>
   get_bet_recommendation (- 30) = ''Good Under Bet'' \<and>
   get_bet_recommendation 7 = ''No Strong Bet Recommendation'' \<and>
   get_bet_recommendation (- 999 / 100) = ''No Strong Bet Recommendation''"
  using get_bet_recommendation_boundaries by simp

subsection \<open>The run\<close>

text \<open>A run that returns results has taken each of its steps with the values it reports.\<close>

lemma run_InrD:
  assumes "run z inp = Inr r"
  shows "bayesian_update (games_played inp) (mean_points inp) (std_dev_points inp)
           (recent_avg_points inp) (recent_games inp) = Inr (posterior_mu r, posterior_sigma r)"
    and "calculate_projected_points (mean_points inp) (recent_avg_points inp)
           (opp_points_allowed_position inp) (projected_minutes inp) (avg_minutes inp) =
         Inr (projected_points r)"
    and "monte_carlo_simulation z (projected_points r) (posterior_sigma r) (simulations inp) =
         Inr (simulated_points r)"
    and "apply_floor_adjustment (projected_points r) (opp_points_allowed_position inp)
           (floor_percentage inp) = Inr (final_points r, floor_triggered r)"
    and "np_mean_gt (simulated_points r) (line inp) = Inr (prob_over_line r)"
    and "calculate_ev (prob_over_line r) (odds inp) = Inr (ev r)"
    and "edge_percentage r = (prob_over_line r * 100) - 50"
    and "bet_recommendation r = get_bet_recommendation (edge_percentage r)"
  using assms
  by (auto simp: run_def Let_def dest!: bind_res_InrD)

text \<open>
  A positive standard deviation, a number of recent games that is not negative and at least
  one simulation are enough for the run to return results.
\<close>

lemma run_returns:
  assumes "0 < std_dev_points inp" "0 \<le> recent_games inp" "1 \<le> simulations inp"
  shows "\<exists>r. run z inp = Inr r"
proof -
  obtain pm ps where b: "bayesian_update (games_played inp) (mean_points inp)
      (std_dev_points inp) (recent_avg_points inp) (recent_games inp) = Inr (pm, ps)"
    and ps: "0 \<le> ps"
    using bayesian_update_returns [OF assms(1,2)] by blast
  obtain proj where c: "calculate_projected_points (mean_points inp) (recent_avg_points inp)
      (opp_points_allowed_position inp) (projected_minutes inp) (avg_minutes inp) = Inr proj"
    by (simp add: calculate_projected_points_value)
  define sim where "sim = map (\<lambda>i. proj + ps * z i) [0..<nat (simulations inp)]"
  have m: "monte_carlo_simulation z proj ps (simulations inp) = Inr sim"
    using ps assms(3) by (simp add: monte_carlo_simulation_def np_random_normal_def sim_def)
  have "sim \<noteq> []" using assms(3) by (simp add: sim_def)
  then obtain prob where n: "np_mean_gt sim (line inp) = Inr prob"
    by (simp add: np_mean_gt_def)
  obtain e where e: "calculate_ev prob (odds inp) = Inr e"
    by (simp add: calculate_ev_def odds_decimal_value)
  show ?thesis
    by (simp add: run_def b c m n e apply_floor_adjustment_value Let_def)
qed

lemma run_floor_example: "run zero_draws floor_example = Inr floor_example_results"
proof -
  have z: "(\<lambda>i. 213 / 20 + zero_draws i) = (\<lambda>i. 213 / 20)"
    by (simp add: zero_draws_def)
  have m: "monte_carlo_simulation zero_draws (213 / 20) 1 1000 = Inr (replicate 1000 (213 / 20))"
    by (simp add: monte_carlo_simulation_def np_random_normal_def z map_replicate_const)
  have n: "np_mean_gt (replicate 1000 (213 / 20)) (41 / 2) = Inr 0"
    by (simp add: np_mean_gt_def)
  show ?thesis
    by (simp add: run_def floor_example_def floor_example_results_def bayesian_update_def
        calculate_projected_points_value m n apply_floor_adjustment_value calculate_ev_def
        odds_decimal_value get_bet_recommendation_def)
qed

text \<open>
  C6: a run on valid inputs (a positive standard deviation, recent games not negative, at
  least one simulation, so a sample sequence that is not empty) returns results, and in the
  results of every run the probability of the over lies between 0 and 1, the edge
  percentage is that probability times 100 minus 50, and so lies between -50 and 50.
\<close>

theorem run_probability_bounds:
  "(0 < std_dev_points inp \<and> 0 \<le> recent_games inp \<and> 1 \<le> simulations inp \<longrightarrow>
      (\<exists>r. run z inp = Inr r)) \<and>
   (\<forall>r. run z inp = Inr r \<longrightarrow>
      0 \<le> prob_over_line r \<and> prob_over_line r \<le> 1 \<and>
      edge_percentage r = prob_over_line r * 100 - 50 \<and>
      - 50 \<le> edge_percentage r \<and> edge_percentage r \<le> 50)"
proof (intro conjI impI allI)
  assume "0 < std_dev_points inp \<and> 0 \<le> recent_games inp \<and> 1 \<le> simulations inp"
  then show "\<exists>r. run z inp = Inr r" using run_returns [of inp z] by simp
next
  fix r assume r: "run z inp = Inr r"
  have p: "0 \<le> prob_over_line r \<and> prob_over_line r \<le> 1"
    using run_InrD(5) [OF r] by (rule np_mean_gt_bounds)
  have e: "edge_percentage r = prob_over_line r * 100 - 50"
    using run_InrD(7) [OF r] .
  show "0 \<le> prob_over_line r" "prob_over_line r \<le> 1" using p by simp_all
  show "edge_percentage r = prob_over_line r * 100 - 50" by (rule e)
  show "- 50 \<le> edge_percentage r" "edge_percentage r \<le> 50" using p e by simp_all
qed

theorem run_probability_bounds_witness:
  "(\<exists>r. run zero_draws floor_example = Inr r) \<and>
   0 \<le> prob_over_line floor_example_results \<and> prob_over_line floor_example_results \<le> 1 \<and>
   edge_percentage floor_example_results = prob_over_line floor_example_results * 100 - 50 \<and>
   - 50 \<le> edge_percentage floor_example_results \<and> edge_percentage floor_example_results \<le> 50"
  using run_probability_bounds [of floor_example zero_draws] run_floor_example
  by (simp add: floor_example_def)

text \<open>
  C10: two runs with the same draws and the same inputs except for the floor percentage
  have the same betting analysis (probability of the over, expected value, edge percentage
  and recommendation), or fail alike; the posterior, the projection and the samples agree
  as well, so the floor percentage reaches only \<open>final_points\<close> and \<open>floor_triggered\<close>.
\<close>

theorem floor_percentage_independent:
  "map_sum id analysis (run z (inp\<lparr>floor_percentage := p\<rparr>)) = map_sum id analysis (run z inp) \<and>
   map_sum id estimates (run z (inp\<lparr>floor_percentage := p\<rparr>)) = map_sum id estimates (run z inp)"
  by (auto simp: run_def apply_floor_adjustment_value bind_res_def analysis_def estimates_def
      Let_def split: sum.splits prod.splits)

text \<open>
  C1, as the code has it: in every run that returns results, the sample set is the draw of
  \<open>np.random.normal\<close> around the raw projection, the result of
  \<open>calculate_projected_points\<close>, with the posterior standard deviation; the floor
  adjustment is computed from the same raw projection and gives only \<open>final_points\<close> and
  \<open>floor_triggered\<close>.
\<close>

theorem samples_from_raw_projection:
  assumes "run z inp = Inr r"
  shows "calculate_projected_points (mean_points inp) (recent_avg_points inp)
           (opp_points_allowed_position inp) (projected_minutes inp) (avg_minutes inp) =
         Inr (projected_points r) \<and>
         monte_carlo_simulation z (projected_points r) (posterior_sigma r) (simulations inp) =
         Inr (simulated_points r) \<and>
         simulated_points r =
           map (\<lambda>i. projected_points r + posterior_sigma r * z i) [0..<nat (simulations inp)] \<and>
         apply_floor_adjustment (projected_points r) (opp_points_allowed_position inp)
           (floor_percentage inp) = Inr (final_points r, floor_triggered r)"
proof -
  have m: "monte_carlo_simulation z (projected_points r) (posterior_sigma r) (simulations inp) =
      Inr (simulated_points r)"
    by (rule run_InrD(3) [OF assms])
  then have "simulated_points r =
      map (\<lambda>i. projected_points r + posterior_sigma r * z i) [0..<nat (simulations inp)]"
    by (auto simp: monte_carlo_simulation_def np_random_normal_def split: if_splits)
  then show ?thesis using m run_InrD(2) [OF assms] run_InrD(4) [OF assms] by simp
qed

theorem samples_from_raw_projection_witness:
  "monte_carlo_simulation zero_draws (213 / 20) 1 1000 = Inr (replicate 1000 (213 / 20)) \<and>
   apply_floor_adjustment (213 / 20) 22 50 = Inr (11, True)"
  using samples_from_raw_projection [OF run_floor_example]
  by (simp add: floor_example_def floor_example_results_def)

text \<open>
  In the concrete run the floor is applied (\<open>final_points\<close> is 11, above the raw projection
  10.65), yet the 1000 samples are the draw around 10.65; the draw around the floored value
  11 with the same deviation and the same draws is another sequence.
\<close>

theorem samples_from_floored_counterexample:
  "run zero_draws floor_example = Inr floor_example_results \<and>
   simulated_points floor_example_results = replicate 1000 (213 / 20) \<and>
   final_points floor_example_results = 11 \<and>
   posterior_sigma floor_example_results = 1 \<and>
   monte_carlo_simulation zero_draws 11 1 1000 = Inr (replicate 1000 11) \<and>
   replicate 1000 (213 / 20) \<noteq> replicate 1000 (11::real)"
proof -
  have z: "(\<lambda>i. 11 + zero_draws i) = (\<lambda>i. 11)"
    by (simp add: zero_draws_def)
  have "monte_carlo_simulation zero_draws 11 1 1000 = Inr (replicate 1000 11)"
    by (simp add: monte_carlo_simulation_def np_random_normal_def z map_replicate_const)
  moreover have "replicate 1000 (213 / 20) \<noteq> replicate 1000 (11::real)"
    by (simp add: replicate_eq_replicate)
  ultimately show ?thesis using run_floor_example by (simp add: floor_example_results_def)
qed

end
